theory Spec2Isabelle
  imports Main "HOL-Library.Sublist"
begin

section \<open>Python strings\<close>

text \<open>
  A Python \<open>str\<close> is modelled as a \<open>string\<close> whose characters are the code points
  0 to 255. The library operations below are the CPython ones restricted to that range:
  \<open>str.lower\<close> maps A-Z and the upper-case letters 0xC0-0xDE (without the multiplication
  sign 0xD7) to the character 32 places later; \<open>str.isspace\<close>, which is also what
  \<open>str.strip()\<close> removes and what \<open>\s\<close> matches in a \<open>str\<close> pattern, holds of
  9-13, 28-32, 0x85 and 0xA0.
\<close>

definition lower_char :: "char \<Rightarrow> char" where
  "lower_char c =
     (let n = (of_char c :: nat)
      in if (65 \<le> n \<and> n \<le> 90) \<or> (192 \<le> n \<and> n \<le> 222 \<and> n \<noteq> 215)
         then char_of (n + 32) else c)"

definition lower :: "string \<Rightarrow> string" where
  "lower s = map lower_char s"

definition isspace :: "char \<Rightarrow> bool" where
  "isspace c =
     (let n = (of_char c :: nat)
      in (9 \<le> n \<and> n \<le> 13) \<or> (28 \<le> n \<and> n \<le> 32) \<or> n = 133 \<or> n = 160)"

definition strip :: "string \<Rightarrow> string" where
  "strip s = rev (dropWhile isspace (rev (dropWhile isspace s)))"

text \<open>\<open>sub in s\<close> on strings: \<open>sub\<close> occurs in \<open>s\<close> as a contiguous substring.\<close>

fun str_in :: "string \<Rightarrow> string \<Rightarrow> bool" where
  "str_in sub [] = (sub = [])"
| "str_in sub (c # cs) = (prefix sub (c # cs) \<or> str_in sub cs)"

text \<open>\<open>s.split(sep)\<close> for a non-empty separator: the pieces between the occurrences of
  \<open>sep\<close>, found from the left without overlap. \<open>cur\<close> is the piece being read.\<close>

function split_from :: "string \<Rightarrow> string \<Rightarrow> string \<Rightarrow> string list" where
  "split_from sep cur [] = [cur]"
| "split_from sep cur (c # cs) =
     (if sep \<noteq> [] \<and> prefix sep (c # cs)
      then cur # split_from sep [] (drop (length sep) (c # cs))
      else split_from sep (cur @ [c]) cs)"
  by pat_completeness auto
termination
  by (relation "measure (\<lambda>(sep, cur, s). length s)") (auto simp: neq_Nil_conv)

definition split :: "string \<Rightarrow> string \<Rightarrow> string list" where
  "split s sep = split_from sep [] s"

text \<open>\<open>s.partition(c)\<close> for a one-character separator gives
  \<open>(before c s, c \<in> set s, after c s)\<close>, and \<open>s.rpartition(c)[2]\<close> is \<open>after_last c s\<close>.\<close>

definition before :: "char \<Rightarrow> string \<Rightarrow> string" where
  "before c s = takeWhile (\<lambda>x. x \<noteq> c) s"

definition after :: "char \<Rightarrow> string \<Rightarrow> string" where
  "after c s = drop 1 (dropWhile (\<lambda>x. x \<noteq> c) s)"

definition after_last :: "char \<Rightarrow> string \<Rightarrow> string" where
  "after_last c s = rev (takeWhile (\<lambda>x. x \<noteq> c) (rev s))"

definition is_ascii_alpha :: "char \<Rightarrow> bool" where
  "is_ascii_alpha c =
     (let n = (of_char c :: nat) in (65 \<le> n \<and> n \<le> 90) \<or> (97 \<le> n \<and> n \<le> 122))"

definition is_ascii_digit :: "char \<Rightarrow> bool" where
  "is_ascii_digit c = (let n = (of_char c :: nat) in 48 \<le> n \<and> n \<le> 57)"

definition is_hexdig :: "char \<Rightarrow> bool" where
  "is_hexdig c =
     (let n = (of_char c :: nat)
      in (48 \<le> n \<and> n \<le> 57) \<or> (65 \<le> n \<and> n \<le> 70) \<or> (97 \<le> n \<and> n \<le> 102))"

definition hexval :: "char \<Rightarrow> nat" where
  "hexval c =
     (let n = (of_char c :: nat)
      in if n \<le> 57 then n - 48 else if n \<le> 70 then n - 55 else n - 87)"

section \<open>link\_filter.py\<close>

text \<open>
  Python lists are mutable objects, and \<open>get_user_filters\<close> hands out either the list
  stored for the user or a copy of the module-level \<open>DEFAULT_FILTER_WORDS\<close>. The state
  therefore has an explicit store of list objects: \<open>heap\<close> maps an address to the
  contents of the list living there, \<open>next_addr\<close> is the first address never allocated,
  and the dictionary \<open>self.user_filters\<close> maps a user id to the address of a list.
  The contents of \<open>DEFAULT_FILTER_WORDS\<close> come from \<open>config.py\<close>; they are whatever the
  store holds at its address.
\<close>

type_synonym addr = nat

record filter_state =
  heap :: "addr \<Rightarrow> string list"
  next_addr :: addr
  user_filters :: "int \<rightharpoonup> addr"

definition DEFAULT_FILTER_WORDS :: addr where
  "DEFAULT_FILTER_WORDS = 0"

text \<open>Creating a list object (a list display, a comprehension, \<open>list.copy()\<close>).\<close>

definition new_list :: "filter_state \<Rightarrow> string list \<Rightarrow> addr \<times> filter_state" where
  "new_list st xs =
     (next_addr st, st\<lparr>heap := (heap st)(next_addr st := xs), next_addr := Suc (next_addr st)\<rparr>)"

text \<open>The module is imported and \<open>LinkFilter()\<close> is constructed.\<close>

definition init_state :: "string list \<Rightarrow> filter_state" where
  "init_state dflt =
     \<lparr>heap = (\<lambda>_. [])(DEFAULT_FILTER_WORDS := dflt), next_addr = Suc DEFAULT_FILTER_WORDS,
      user_filters = Map.empty\<rparr>"

text \<open>
  \<open>self.user_filters.get(user_id, DEFAULT_FILTER_WORDS.copy())\<close>: the argument is
  evaluated first, so the copy is made on every call, and dropped when the user has an entry.
\<close>

definition get_user_filters :: "filter_state \<Rightarrow> int \<Rightarrow> addr \<times> filter_state" where
  "get_user_filters st user_id =
     (let (c, st1) = new_list st (heap st DEFAULT_FILTER_WORDS)
      in case user_filters st1 user_id of Some a \<Rightarrow> (a, st1) | None \<Rightarrow> (c, st1))"

definition set_user_filters :: "filter_state \<Rightarrow> int \<Rightarrow> string list \<Rightarrow> filter_state" where
  "set_user_filters st user_id filter_words =
     (let (a, st1) = new_list st (map (\<lambda>word. strip (lower word))
                                      (filter (\<lambda>word. strip word \<noteq> []) filter_words))
      in st1\<lparr>user_filters := (user_filters st1)(user_id \<mapsto> a)\<rparr>)"

definition add_filter_word :: "filter_state \<Rightarrow> int \<Rightarrow> string \<Rightarrow> filter_state" where
  "add_filter_word st user_id word0 =
     (let (current_filters, st1) = get_user_filters st user_id;
          word = strip (lower word0)
      in if word \<noteq> [] \<and> word \<notin> set (heap st1 current_filters)
         then st1\<lparr>heap := (heap st1)(current_filters := heap st1 current_filters @ [word]),
                  user_filters := (user_filters st1)(user_id \<mapsto> current_filters)\<rparr>
         else st1)"

definition remove_filter_word :: "filter_state \<Rightarrow> int \<Rightarrow> string \<Rightarrow> bool \<times> filter_state" where
  "remove_filter_word st user_id word0 =
     (let (current_filters, st1) = get_user_filters st user_id;
          word = strip (lower word0)
      in if word \<in> set (heap st1 current_filters)
         then (True,
               st1\<lparr>heap := (heap st1)(current_filters := remove1 word (heap st1 current_filters)),
                   user_filters := (user_filters st1)(user_id \<mapsto> current_filters)\<rparr>)
         else (False, st1))"

definition clear_user_filters :: "filter_state \<Rightarrow> int \<Rightarrow> filter_state" where
  "clear_user_filters st user_id =
     (let (a, st1) = new_list st [] in st1\<lparr>user_filters := (user_filters st1)(user_id \<mapsto> a)\<rparr>)"

text \<open>The inner loop of \<open>filter_links\<close>: the first filter word found in the link ends it.\<close>

fun should_exclude :: "string list \<Rightarrow> string \<Rightarrow> bool" where
  "should_exclude [] link_lower = False"
| "should_exclude (filter_word # rest) link_lower =
     (if str_in filter_word link_lower then True else should_exclude rest link_lower)"

text \<open>The outer loop, with its two accumulators.\<close>

fun filter_loop :: "string list \<Rightarrow> string list \<Rightarrow> string list \<Rightarrow> nat \<Rightarrow> string list \<times> nat" where
  "filter_loop filter_words [] filtered_links excluded_count = (filtered_links, excluded_count)"
| "filter_loop filter_words (link # links) filtered_links excluded_count =
     (if should_exclude filter_words (lower link)
      then filter_loop filter_words links filtered_links (excluded_count + 1)
      else filter_loop filter_words links (filtered_links @ [link]) excluded_count)"

definition filter_links ::
  "filter_state \<Rightarrow> int \<Rightarrow> string list \<Rightarrow> (string list \<times> nat) \<times> filter_state" where
  "filter_links st user_id links =
     (if links = [] then (([], 0), st)
      else let (fw, st1) = get_user_filters st user_id
           in if heap st1 fw = [] then ((links, 0), st1)
              else (filter_loop (heap st1 fw) links [] 0, st1))"

text \<open>What a caller reads from the list that \<open>get_user_filters\<close> returns.\<close>

definition filters_of :: "filter_state \<Rightarrow> int \<Rightarrow> string list" where
  "filters_of st user_id = (let (a, st1) = get_user_filters st user_id in heap st1 a)"


subsection \<open>Sequences of calls\<close>

text \<open>
  The calls that the command handlers of \<open>bot.py\<close> make on the one \<open>LinkFilter\<close>
  object, each with the id of the user who sent the command.
\<close>

datatype filter_op =
    Set_filters int "string list"
  | Add_filter int string
  | Remove_filter int string
  | Clear_filters int
  | Show_filters int
  | Apply_filters int "string list"

fun op_user :: "filter_op \<Rightarrow> int" where
  "op_user (Set_filters u ws) = u"
| "op_user (Add_filter u w) = u"
| "op_user (Remove_filter u w) = u"
| "op_user (Clear_filters u) = u"
| "op_user (Show_filters u) = u"
| "op_user (Apply_filters u ls) = u"

fun run_op :: "filter_state \<Rightarrow> filter_op \<Rightarrow> filter_state" where
  "run_op st (Set_filters u ws) = set_user_filters st u ws"
| "run_op st (Add_filter u w) = add_filter_word st u w"
| "run_op st (Remove_filter u w) = snd (remove_filter_word st u w)"
| "run_op st (Clear_filters u) = clear_user_filters st u"
| "run_op st (Show_filters u) = snd (get_user_filters st u)"
| "run_op st (Apply_filters u ls) = snd (filter_links st u ls)"

definition run_ops :: "filter_state \<Rightarrow> filter_op list \<Rightarrow> filter_state" where
  "run_ops st ops = foldl run_op st ops"

text \<open>
  The shape of every state that calls can produce from \<open>init_state\<close>: the lists of the users
  are allocated, none of them is the default list, and no two users share one.
\<close>

definition wf_state :: "filter_state \<Rightarrow> bool" where
  "wf_state st \<longleftrightarrow>
     DEFAULT_FILTER_WORDS < next_addr st
   \<and> (\<forall>u a. user_filters st u = Some a \<longrightarrow> a < next_addr st \<and> a \<noteq> DEFAULT_FILTER_WORDS)
   \<and> (\<forall>u v a. user_filters st u = Some a \<and> user_filters st v = Some a \<longrightarrow> u = v)"




section \<open>urllib.parse\<close>

text \<open>
  \<open>extract_video_id\<close> relies on \<open>urlparse\<close> and \<open>parse_qs\<close> of the standard library.
  They are modelled after CPython 3.11, on strings of the code points up to 255 (where
  \<open>_checknetloc\<close> never raises). A result \<open>None\<close> of \<open>urlsplit\<close> and \<open>urlparse\<close> is the
  \<open>ValueError\<close> they raise. Whether \<open>ipaddress.ip_address\<close> takes a bracketed host for
  an IPv6 address is left open: it is the parameter \<open>is_ipv6\<close>, and everything proved
  holds whatever it answers.
\<close>

record parse_result =
  scheme :: string
  netloc :: string
  path :: string
  params :: string
  query :: string
  fragment :: string

definition scheme_chars :: "char \<Rightarrow> bool" where
  "scheme_chars c \<longleftrightarrow> is_ascii_alpha c \<or> is_ascii_digit c \<or> c \<in> set ''+-.''"

definition uses_params :: "string list" where
  "uses_params = ['''', ''ftp'', ''hdl'', ''prospero'', ''http'', ''imap'', ''https'', ''shttp'',
     ''rtsp'', ''rtsps'', ''rtspu'', ''sip'', ''sips'', ''mms'', ''sftp'', ''tel'']"

definition check_bracketed_host :: "(string \<Rightarrow> bool) \<Rightarrow> string \<Rightarrow> bool" where
  "check_bracketed_host is_ipv6 hostname =
     (if prefix ''v'' hostname
      then (let rest = drop 1 hostname
            in takeWhile is_hexdig rest \<noteq> []
               \<and> prefix ''.'' (dropWhile is_hexdig rest)
               \<and> drop 1 (dropWhile is_hexdig rest) \<noteq> [])
      else is_ipv6 hostname)"

definition splitparams :: "string \<Rightarrow> string \<times> string" where
  "splitparams url =
     (if CHR ''/'' \<in> set url
      then (let last_seg = after_last (CHR ''/'') url;
                head = take (length url - length last_seg) url
            in if CHR '';'' \<in> set last_seg
               then (head @ before (CHR '';'') last_seg, after (CHR '';'') last_seg)
               else (url, ''''))
      else (before (CHR '';'') url, after (CHR '';'') url))"

definition urlsplit :: "(string \<Rightarrow> bool) \<Rightarrow> string \<Rightarrow> parse_result option" where
  "urlsplit is_ipv6 url0 =
     (let url1 = dropWhile (\<lambda>c. (of_char c :: nat) \<le> 32) url0;
          url2 = filter (\<lambda>c. c \<notin> {CHR 0x09, CHR 0x0D, CHR 0x0A}) url1;
          pre = before (CHR '':'') url2;
          has_scheme = (CHR '':'' \<in> set url2
                        \<and> (case pre of [] \<Rightarrow> False | c # _ \<Rightarrow> is_ascii_alpha c)
                        \<and> list_all scheme_chars pre);
          sch = (if has_scheme then lower pre else '''');
          url3 = (if has_scheme then after (CHR '':'') url2 else url2);
          has_netloc = (take 2 url3 = ''//'');
          nl = (if has_netloc
                then takeWhile (\<lambda>c. c \<notin> set ''/?#'') (drop 2 url3) else '''');
          url4 = (if has_netloc
                  then dropWhile (\<lambda>c. c \<notin> set ''/?#'') (drop 2 url3) else url3);
          frag = (if CHR ''#'' \<in> set url4 then after (CHR ''#'') url4 else '''');
          url5 = (if CHR ''#'' \<in> set url4 then before (CHR ''#'') url4 else url4);
          qry = (if CHR ''?'' \<in> set url5 then after (CHR ''?'') url5 else '''');
          url6 = (if CHR ''?'' \<in> set url5 then before (CHR ''?'') url5 else url5)
      in if (CHR ''['' \<in> set nl \<and> CHR '']'' \<notin> set nl)
            \<or> (CHR '']'' \<in> set nl \<and> CHR ''['' \<notin> set nl)
         then None
         else if CHR ''['' \<in> set nl \<and> CHR '']'' \<in> set nl
                 \<and> \<not> check_bracketed_host is_ipv6 (before (CHR '']'') (after (CHR ''['') nl))
         then None
         else Some \<lparr>scheme = sch, netloc = nl, path = url6, params = '''',
                     query = qry, fragment = frag\<rparr>)"

definition urlparse :: "(string \<Rightarrow> bool) \<Rightarrow> string \<Rightarrow> parse_result option" where
  "urlparse is_ipv6 url =
     (case urlsplit is_ipv6 url of
        None \<Rightarrow> None
      | Some r \<Rightarrow>
          if scheme r \<in> set uses_params \<and> CHR '';'' \<in> set (path r)
          then Some (r\<lparr>path := fst (splitparams (path r)), params := snd (splitparams (path r))\<rparr>)
          else Some r)"

definition hostname :: "parse_result \<Rightarrow> string option" where
  "hostname r =
     (let hostinfo = after_last (CHR ''@'') (netloc r);
          host = (if CHR ''['' \<in> set hostinfo
                  then before (CHR '']'') (after (CHR ''['') hostinfo)
                  else before (CHR '':'') hostinfo)
      in if host = [] then None
         else Some (lower (before (CHR ''%'') host) @ dropWhile (\<lambda>c. c \<noteq> CHR ''%'') host))"

text \<open>
  \<open>unquote\<close> replaces each \<open>%xx\<close> escape by the byte it names and decodes every run of
  ASCII characters, with the bytes of its escapes, as UTF-8 (\<open>errors='replace'\<close>).
  \<open>Esc b\<close> is a byte that came from an escape, \<open>Lit c\<close> a character of the string itself.
  The result is \<open>None\<close> when the decoded text has a character beyond code point 255 (a
  longer UTF-8 sequence, or the replacement character U+FFFD for a malformed one), which a
  \<open>string\<close> here cannot hold.
\<close>

datatype qchar = Lit char | Esc nat

fun unquote_to_bytes :: "string \<Rightarrow> qchar list" where
  "unquote_to_bytes [] = []"
| "unquote_to_bytes (c # cs) =
     (if c = CHR ''%''
      then (case cs of
              h1 # h2 # rest \<Rightarrow>
                if is_hexdig h1 \<and> is_hexdig h2
                then Esc (16 * hexval h1 + hexval h2) # unquote_to_bytes rest
                else Lit c # unquote_to_bytes cs
            | _ \<Rightarrow> Lit c # unquote_to_bytes cs)
      else Lit c # unquote_to_bytes cs)"

fun decode :: "qchar list \<Rightarrow> string option" where
  "decode [] = Some []"
| "decode (Lit c # qs) = map_option ((#) c) (decode qs)"
| "decode (Esc b # qs) =
     (if b < 128 then map_option ((#) (char_of b)) (decode qs)
      else if b = 194 \<or> b = 195
      then (case qs of
              Esc b2 # qs' \<Rightarrow>
                if 128 \<le> b2 \<and> b2 < 192
                then map_option ((#) (char_of ((b - 192) * 64 + (b2 - 128)))) (decode qs')
                else None
            | _ \<Rightarrow> None)
      else None)"

definition unquote :: "string \<Rightarrow> string option" where
  "unquote s = decode (unquote_to_bytes s)"

definition unquote_plus :: "string \<Rightarrow> string option" where
  "unquote_plus s = unquote (map (\<lambda>c. if c = CHR ''+'' then CHR '' '' else c) s)"

text \<open>\<open>parse_qsl\<close> with its default arguments, and the lookup
  \<open>parse_qs(qs).get(name, [None])[0]\<close>: the value of the first pair with that name.\<close>

definition parse_qsl :: "string \<Rightarrow> (string option \<times> string option) list" where
  "parse_qsl qs =
     (if qs = [] then []
      else map (\<lambda>name_value. (unquote_plus (before (CHR ''='') name_value),
                               unquote_plus (after (CHR ''='') name_value)))
             (filter (\<lambda>name_value. name_value \<noteq> [] \<and> after (CHR ''='') name_value \<noteq> [])
                (split qs ''&'')))"

datatype py_str = PyNone | Str string | Wide_str

fun parse_qs_get_first :: "(string option \<times> string option) list \<Rightarrow> string \<Rightarrow> py_str" where
  "parse_qs_get_first [] name = PyNone"
| "parse_qs_get_first ((n, v) # pairs) name =
     (if n = Some name then (case v of Some x \<Rightarrow> Str x | None \<Rightarrow> Wide_str)
      else parse_qs_get_first pairs name)"

section \<open>youtube\_extractor.py\<close>

definition extract_video_id :: "(string \<Rightarrow> bool) \<Rightarrow> string \<Rightarrow> py_str" where
  "extract_video_id is_ipv6 url =
     (case urlparse is_ipv6 url of
        None \<Rightarrow> PyNone
      | Some parsed_url \<Rightarrow>
          if hostname parsed_url \<in> Some ` set [''www.youtube.com'', ''youtube.com'', ''m.youtube.com'']
          then if path parsed_url = ''/watch''
               then parse_qs_get_first (parse_qsl (query parsed_url)) ''v''
               else if prefix ''/embed/'' (path parsed_url)
               then Str (case split (last (split (path parsed_url) ''/embed/'')) ''?'' of
                           p # _ \<Rightarrow> p | [] \<Rightarrow> [])
               else if prefix ''/v/'' (path parsed_url)
               then Str (case split (last (split (path parsed_url) ''/v/'')) ''?'' of
                           p # _ \<Rightarrow> p | [] \<Rightarrow> [])
               else PyNone
          else if hostname parsed_url \<in> Some ` set [''youtu.be'']
          then Str (case split (drop 1 (path parsed_url)) ''?'' of p # _ \<Rightarrow> p | [] \<Rightarrow> [])
          else PyNone)"

subsection \<open>get\_video\_description\<close>

text \<open>
  What \<open>request.execute()\<close> can do: return a response, whose \<open>items\<close> may be missing
  and whose items may lack any of the keys read, raise \<open>HttpError\<close> with a status and the
  list \<open>error_details\<close> of dictionaries (each given by its \<open>reason\<close> entry, if it has one),
  or raise another exception \<open>e\<close>, given by \<open>str(e)\<close>.
\<close>

record snippet =
  title :: "string option"
  description :: "string option"

datatype api_outcome =
    Response "snippet option list option"
  | HttpError nat "string option list"
  | Other_exception string

definition error_reason :: "string option list \<Rightarrow> string" where
  "error_reason error_details =
     (case error_details of
        [] \<Rightarrow> ''Unknown error''
      | d # _ \<Rightarrow> (case d of None \<Rightarrow> ''Unknown error'' | Some r \<Rightarrow> r))"

definition get_video_description :: "api_outcome \<Rightarrow> bool \<times> string" where
  "get_video_description outcome =
     (case outcome of
        Response items \<Rightarrow>
          (case items of
             None \<Rightarrow> (False, ''Video not found. The video might be private, deleted, or the URL is invalid.'')
           | Some [] \<Rightarrow> (False, ''Video not found. The video might be private, deleted, or the URL is invalid.'')
           | Some (video_data # _) \<Rightarrow>
               (case video_data of
                  None \<Rightarrow> (False, ''An unexpected error occurred: '' @ [CHR 0x27] @ ''snippet'' @ [CHR 0x27])
                | Some sn \<Rightarrow> (True, case description sn of None \<Rightarrow> '''' | Some d \<Rightarrow> d)))
      | HttpError status error_details \<Rightarrow>
          (let reason = error_reason error_details
           in if status = 403
              then if str_in ''quotaExceeded'' reason
                   then (False, ''YouTube API quota exceeded. Please try again later.'')
                   else (False, ''Access forbidden. The video might be private or restricted.'')
              else if status = 404
              then (False, ''Video not found. Please check the URL and try again.'')
              else (False, ''YouTube API error: '' @ reason))
      | Other_exception e \<Rightarrow> (False, ''An unexpected error occurred: '' @ e))"

subsection \<open>extract\_https\_links\<close>

text \<open>
  \<open>https_pattern\<close> is \<open>https://[^\s<>"]+\<close> with \<open>re.IGNORECASE\<close>. \<open>https_match\<close> is
  its match at the start of a string: the eight characters that read \<open>https://\<close> in any
  case, then the longest non-empty run of characters that are neither white space nor one
  of \<open><\<close>, \<open>>\<close>, \<open>"\<close>. \<open>findall\<close> scans from the left, and goes on after each match.
\<close>

definition link_char :: "char \<Rightarrow> bool" where
  "link_char c \<longleftrightarrow> \<not> isspace c \<and> c \<notin> {CHR ''<'', CHR ''>'', CHR 0x22}"

definition https_match :: "string \<Rightarrow> string option" where
  "https_match s =
     (if lower (take 8 s) = ''https://'' \<and> takeWhile link_char (drop 8 s) \<noteq> []
      then Some (take 8 s @ takeWhile link_char (drop 8 s))
      else None)"

function https_findall :: "string \<Rightarrow> string list" where
  "https_findall [] = []"
| "https_findall (c # cs) =
     (case https_match (c # cs) of
        Some m \<Rightarrow> m # https_findall (drop (length m) (c # cs))
      | None \<Rightarrow> https_findall cs)"
  by pat_completeness auto
termination
  by (relation "measure length") (auto simp: https_match_def split: if_splits)

text \<open>\<open>re.sub(r'[.,;:!?)}\]]+$', '', link)\<close> on a link, which has no line break: the
  longest run of these characters at the end is removed.\<close>

definition trailing_punct :: "char \<Rightarrow> bool" where
  "trailing_punct c \<longleftrightarrow> c \<in> set ''.,;:!?)}]''"

definition sub_trailing :: "string \<Rightarrow> string" where
  "sub_trailing link = rev (dropWhile trailing_punct (rev link))"

fun clean_loop :: "string list \<Rightarrow> string list \<Rightarrow> string list" where
  "clean_loop [] cleaned_links = cleaned_links"
| "clean_loop (l # links) cleaned_links =
     (let link = sub_trailing l
      in if link \<noteq> [] \<and> link \<notin> set cleaned_links
         then clean_loop links (cleaned_links @ [link])
         else clean_loop links cleaned_links)"

definition extract_https_links :: "string \<Rightarrow> string list" where
  "extract_https_links text =
     (if text = [] then [] else clean_loop (https_findall text) [])"

subsection \<open>process\_youtube\_url\<close>

text \<open>The provider is a function from the video id asked for to what the request does.
  The result is \<open>Inl\<close> the error message of \<open>(False, message)\<close> or \<open>Inr\<close> the links of
  \<open>(True, links)\<close>.\<close>

definition process_youtube_url ::
  "(string \<Rightarrow> bool) \<Rightarrow> (py_str \<Rightarrow> api_outcome) \<Rightarrow> string \<Rightarrow> string + string list" where
  "process_youtube_url is_ipv6 api url =
     (let video_id = extract_video_id is_ipv6 url
      in if video_id = PyNone \<or> video_id = Str ''''
         then Inl ''Invalid YouTube URL format. Please provide a valid YouTube video URL.''
         else (case get_video_description (api video_id) of
                 (False, message) \<Rightarrow> Inl message
               | (True, description_text) \<Rightarrow> Inr (extract_https_links description_text)))"

section \<open>bot.py\<close>

text \<open>
  \<open>youtube_url_pattern\<close> is
  \<open>(?:https?://)?(?:www\.)?(?:youtube\.com/(?:watch\?v=|embed/|v/)|youtu\.be/)[\w-]+\<close>
  with \<open>re.IGNORECASE\<close>. \<open>ci_prefix p s\<close>: the lower-case text \<open>p\<close> starts \<open>s\<close> in any case.
  \<open>word_char\<close> is \<open>\w\<close> on the code points up to 255. The alternatives of the pattern
  exclude one another, so no back-tracking is lost by trying them in order.
\<close>

definition ci_prefix :: "string \<Rightarrow> string \<Rightarrow> bool" where
  "ci_prefix p s \<longleftrightarrow> length p \<le> length s \<and> lower (take (length p) s) = p"

definition skip_optional :: "string \<Rightarrow> string \<Rightarrow> string" where
  "skip_optional p s = (if ci_prefix p s then drop (length p) s else s)"

definition word_char :: "char \<Rightarrow> bool" where
  "word_char c =
     (let n = (of_char c :: nat)
      in is_ascii_alpha c \<or> is_ascii_digit c \<or> c = CHR ''_''
         \<or> n \<in> {170, 178, 179, 181, 185, 186, 188, 189, 190}
         \<or> (192 \<le> n \<and> n \<noteq> 215 \<and> n \<noteq> 247))"

definition youtube_url_match :: "string \<Rightarrow> string option" where
  "youtube_url_match s =
     (let s1 = (if ci_prefix ''https://'' s then drop 8 s
                else if ci_prefix ''http://'' s then drop 7 s else s);
          s2 = skip_optional ''www.'' s1;
          s3 = (if ci_prefix ''youtube.com/watch?v='' s2 then Some (drop 20 s2)
                else if ci_prefix ''youtube.com/embed/'' s2 then Some (drop 18 s2)
                else if ci_prefix ''youtube.com/v/'' s2 then Some (drop 14 s2)
                else if ci_prefix ''youtu.be/'' s2 then Some (drop 9 s2)
                else None)
      in case s3 of
           None \<Rightarrow> None
         | Some rest \<Rightarrow>
             (let ident = takeWhile (\<lambda>c. word_char c \<or> c = CHR ''-'') rest
              in if ident = [] then None
                 else Some (take (length s - length rest + length ident) s)))"

function youtube_url_findall :: "string \<Rightarrow> string list" where
  "youtube_url_findall [] = []"
| "youtube_url_findall (c # cs) =
     (case youtube_url_match (c # cs) of
        Some m \<Rightarrow> m # youtube_url_findall (drop (length m) (c # cs))
      | None \<Rightarrow> youtube_url_findall cs)"
  by pat_completeness auto
termination
  by (relation "measure length")
     (auto simp: youtube_url_match_def Let_def split: if_splits option.splits)

text \<open>\<open>handle_message\<close> up to its call of \<open>process_youtube_url\<close>: \<open>None\<close> when the
  message is answered with the list of supported formats, else the URL that is processed.\<close>

definition handle_message_url :: "string \<Rightarrow> string option" where
  "handle_message_url text =
     (case youtube_url_findall (strip text) of [] \<Rightarrow> None | youtube_url # _ \<Rightarrow> Some youtube_url)"


section \<open>Properties of the link filter\<close>

lemma str_in_sublist: "str_in sub s \<longleftrightarrow> sublist sub s"
  by (induction s) (simp_all add: sublist_Cons_right)

lemma should_exclude_iff: "should_exclude fw l \<longleftrightarrow> (\<exists>w\<in>set fw. sublist w l)"
  by (induction fw) (simp_all add: str_in_sublist)

lemma filter_loop_eq:
  "filter_loop fw links acc n =
     (acc @ filter (\<lambda>l. \<not> should_exclude fw (lower l)) links,
      n + length (filter (\<lambda>l. should_exclude fw (lower l)) links))"
  by (induction links arbitrary: acc n) simp_all

text \<open>
  C1. For every state, user and list of links, \<open>filter_links\<close> returns the pair of the
  links kept and the number excluded, where a link is excluded exactly when its lower-cased
  form has one of the user's filter words (the list \<open>get_user_filters\<close> returns) as a
  contiguous substring: the kept links are the input with the excluded ones deleted, in
  the input order, the count is the number of excluded links, and the two add up to the
  length of the input.
\<close>

theorem filter_links_partition:
  "fst (filter_links st u links) =
     (filter (\<lambda>l. \<not> (\<exists>w\<in>set (filters_of st u). sublist w (lower l))) links,
      length (filter (\<lambda>l. \<exists>w\<in>set (filters_of st u). sublist w (lower l)) links))
   \<and> length (fst (fst (filter_links st u links))) + snd (fst (filter_links st u links))
       = length links"
proof -
  obtain a st1 where g: "get_user_filters st u = (a, st1)" by (cases "get_user_filters st u")
  have h: "heap st1 a = filters_of st u" using g by (simp add: filters_of_def)
  have 1: "fst (filter_links st u links) =
     (filter (\<lambda>l. \<not> (\<exists>w\<in>set (filters_of st u). sublist w (lower l))) links,
      length (filter (\<lambda>l. \<exists>w\<in>set (filters_of st u). sublist w (lower l)) links))"
  proof (cases "links = []")
    case True
    then show ?thesis by (simp add: filter_links_def)
  next
    case False
    show ?thesis
    proof (cases "filters_of st u = []")
      case True
      with False g h show ?thesis by (simp add: filter_links_def)
    next
      case ne: False
      with False g h show ?thesis
        by (simp add: filter_links_def filter_loop_eq should_exclude_iff)
    qed
  qed
  have 2: "length (filter (\<lambda>l. \<not> (\<exists>w\<in>set (filters_of st u). sublist w (lower l))) links)
      + length (filter (\<lambda>l. \<exists>w\<in>set (filters_of st u). sublist w (lower l)) links)
      = length links"
    using sum_length_filter_compl
      [of "\<lambda>l. \<exists>w\<in>set (filters_of st u). sublist w (lower l)" links]
    by (simp only: add.commute)
  show ?thesis unfolding 1 fst_conv snd_conv using 2 by simp
qed

theorem filter_links_partition_witness:
  "fst (filter_links (set_user_filters (init_state [''spam'']) 7 [''Face'', '' '']) 7
         [''https://a.com/x'', ''https://FACEbook.com'', ''https://b.com''])
     = ([''https://a.com/x'', ''https://b.com''], 1)"
  using filter_links_partition
    [of "set_user_filters (init_state [''spam'']) 7 [''Face'', '' '']" 7
        "[''https://a.com/x'', ''https://FACEbook.com'', ''https://b.com'']"]
  by code_simp


subsection \<open>The store of filter lists\<close>

lemma wf_init: "wf_state (init_state d)"
  by (simp add: wf_state_def init_state_def)

lemma filters_of_eq:
  "wf_state st \<Longrightarrow> filters_of st v =
     (case user_filters st v of Some a \<Rightarrow> heap st a | None \<Rightarrow> heap st DEFAULT_FILTER_WORDS)"
  by (auto simp: wf_state_def filters_of_def get_user_filters_def new_list_def split: option.splits)

lemma get_user_filters_cases:
  "get_user_filters st u = (a, st1) \<Longrightarrow>
     st1 = st\<lparr>heap := (heap st)(next_addr st := heap st DEFAULT_FILTER_WORDS),
              next_addr := Suc (next_addr st)\<rparr>
     \<and> (case user_filters st u of Some b \<Rightarrow> a = b | None \<Rightarrow> a = next_addr st)"
  by (auto simp: get_user_filters_def new_list_def split: option.splits)

lemma wf_run_op: "wf_state st \<Longrightarrow> wf_state (run_op st op)"
proof (cases op)
  case (Set_filters u ws)
  assume "wf_state st" then show ?thesis unfolding Set_filters
    by (fastforce simp: wf_state_def set_user_filters_def new_list_def split: if_splits)
next
  case (Add_filter u w)
  assume "wf_state st" then show ?thesis unfolding Add_filter
    by (fastforce simp: wf_state_def add_filter_word_def get_user_filters_def new_list_def Let_def split: if_splits option.splits)
next
  case (Remove_filter u w)
  assume "wf_state st" then show ?thesis unfolding Remove_filter
    by (fastforce simp: wf_state_def remove_filter_word_def get_user_filters_def new_list_def Let_def split: if_splits option.splits)
next
  case (Clear_filters u)
  assume "wf_state st" then show ?thesis unfolding Clear_filters
    by (fastforce simp: wf_state_def clear_user_filters_def new_list_def split: if_splits)
next
  case (Show_filters u)
  assume "wf_state st" then show ?thesis unfolding Show_filters
    by (fastforce simp: wf_state_def get_user_filters_def new_list_def Let_def split: if_splits option.splits)
next
  case (Apply_filters u ls)
  assume "wf_state st" then show ?thesis unfolding Apply_filters
    by (fastforce simp: wf_state_def filter_links_def get_user_filters_def new_list_def Let_def split: if_splits option.splits)
qed

lemma default_run_op:
  "wf_state st \<Longrightarrow> heap (run_op st op) DEFAULT_FILTER_WORDS = heap st DEFAULT_FILTER_WORDS"
  by (cases op)
     (auto simp: wf_state_def set_user_filters_def add_filter_word_def remove_filter_word_def
        clear_user_filters_def filter_links_def get_user_filters_def new_list_def Let_def
        split: if_splits option.splits)

lemma frame_run_op:
  "wf_state st \<Longrightarrow> op_user op \<noteq> v \<Longrightarrow> filters_of (run_op st op) v = filters_of st v"
proof -
  assume wf: "wf_state st" and ne: "op_user op \<noteq> v"
  have wf': "wf_state (run_op st op)" using wf by (rule wf_run_op)
  show ?thesis unfolding filters_of_eq [OF wf] filters_of_eq [OF wf'] using wf ne
    by (cases op)
     (auto simp: wf_state_def set_user_filters_def add_filter_word_def remove_filter_word_def
        clear_user_filters_def filter_links_def get_user_filters_def new_list_def Let_def
        split: if_splits option.splits)
qed

lemma wf_run_ops: "wf_state st \<Longrightarrow> wf_state (run_ops st ops)"
  unfolding run_ops_def by (induction ops arbitrary: st) (simp_all add: wf_run_op)

lemma default_run_ops:
  "wf_state st \<Longrightarrow> heap (run_ops st ops) DEFAULT_FILTER_WORDS = heap st DEFAULT_FILTER_WORDS"
  unfolding run_ops_def
  by (induction ops arbitrary: st) (simp_all add: wf_run_op default_run_op)

lemma frame_run_ops:
  "wf_state st \<Longrightarrow> v \<notin> op_user ` set ops \<Longrightarrow> filters_of (run_ops st ops) v = filters_of st v"
  unfolding run_ops_def
  by (induction ops arbitrary: st) (simp_all add: wf_run_op frame_run_op)

lemma wf_reachable: "wf_state (run_ops (init_state d) ops)"
  by (rule wf_run_ops [OF wf_init])

lemma default_reachable: "heap (run_ops (init_state d) ops) DEFAULT_FILTER_WORDS = d"
  by (simp add: default_run_ops [OF wf_init]) (simp add: init_state_def)









text \<open>
  C9. In every state that calls can produce, the default list still has its initial
  contents; for a user without an entry \<open>get_user_filters\<close> returns a newly allocated
  list that is not the default list, is stored for no user and has the default contents;
  and no further sequence of calls changes the default list, or the filters of a user who
  makes none of those calls.
\<close>

theorem default_filter_words_never_shared:
  "heap (run_ops (init_state d) ops) DEFAULT_FILTER_WORDS = d
   \<and> (user_filters (run_ops (init_state d) ops) u = None \<longrightarrow>
        (case get_user_filters (run_ops (init_state d) ops) u of (a, st1) \<Rightarrow>
           a \<noteq> DEFAULT_FILTER_WORDS \<and> next_addr (run_ops (init_state d) ops) \<le> a
           \<and> (\<forall>v. user_filters st1 v \<noteq> Some a) \<and> heap st1 a = d
           \<and> heap st1 DEFAULT_FILTER_WORDS = d))
   \<and> (\<forall>ops'. heap (run_ops (run_ops (init_state d) ops) ops') DEFAULT_FILTER_WORDS = d)
   \<and> (\<forall>ops'. u \<notin> op_user ` set ops' \<longrightarrow>
         filters_of (run_ops (run_ops (init_state d) ops) ops') u
           = filters_of (run_ops (init_state d) ops) u)"
proof -
  let ?st = "run_ops (init_state d) ops"
  have wf: "wf_state ?st" by (rule wf_reachable)
  have d: "heap ?st DEFAULT_FILTER_WORDS = d" by (rule default_reachable)
  have 2: "user_filters ?st u = None \<longrightarrow>
        (case get_user_filters ?st u of (a, st1) \<Rightarrow>
           a \<noteq> DEFAULT_FILTER_WORDS \<and> next_addr ?st \<le> a
           \<and> (\<forall>v. user_filters st1 v \<noteq> Some a) \<and> heap st1 a = d
           \<and> heap st1 DEFAULT_FILTER_WORDS = d)"
    using wf d by (fastforce simp: wf_state_def get_user_filters_def new_list_def)
  have 3: "\<forall>ops'. heap (run_ops ?st ops') DEFAULT_FILTER_WORDS = d"
    using default_run_ops [OF wf] d by simp
  have 4: "\<forall>ops'. u \<notin> op_user ` set ops' \<longrightarrow> filters_of (run_ops ?st ops') u = filters_of ?st u"
    using frame_run_ops [OF wf] by blast
  from d 2 3 4 show ?thesis by blast
qed

theorem default_filter_words_never_shared_witness:
  "user_filters (run_ops (init_state [''spam'']) [Add_filter 1 ''ads'']) 2 = None
   \<and> fst (get_user_filters (run_ops (init_state [''spam'']) [Add_filter 1 ''ads'']) 2)
        \<noteq> DEFAULT_FILTER_WORDS
   \<and> 2 \<notin> op_user ` set [Remove_filter 1 ''spam'', Clear_filters 3]
   \<and> filters_of (run_ops (run_ops (init_state [''spam'']) [Add_filter 1 ''ads''])
                   [Remove_filter 1 ''spam'', Clear_filters 3]) 2
       = filters_of (run_ops (init_state [''spam'']) [Add_filter 1 ''ads'']) 2
   \<and> heap (run_ops (run_ops (init_state [''spam'']) [Add_filter 1 ''ads''])
                   [Remove_filter 1 ''spam'', Clear_filters 3]) DEFAULT_FILTER_WORDS = [''spam'']"
proof -
  have 1: "user_filters (run_ops (init_state [''spam'']) [Add_filter 1 ''ads'']) 2 = None"
    by code_simp
  have 2: "2 \<notin> op_user ` set [Remove_filter 1 ''spam'', Clear_filters 3]"
    by simp
  from default_filter_words_never_shared [where d = "[''spam'']" and ops = "[Add_filter 1 ''ads'']"
      and u = 2] 1 2
  show ?thesis by (simp add: case_prod_beta)
qed







end
